theory Spec2Isabelle
  imports Complex_Main "HOL-Library.Sublist"
begin

section \<open>Errors and results\<close>

text \<open>
  The module \<^verbatim>\<open>rasterix/rasterize/exact.py\<close> raises Python exceptions; every one of
  them is a value here. A \<^verbatim>\<open>ValueError\<close> carries its message. Floating-point
  coordinates and coverage values are idealised as exact reals.
\<close>

datatype error = ValueError string | IndexError | AttributeError | KeyError string

definition bind :: "error + 'a \<Rightarrow> ('a \<Rightarrow> error + 'b) \<Rightarrow> error + 'b" where
  "bind m f = (case m of Inl e \<Rightarrow> Inl e | Inr v \<Rightarrow> f v)"

text \<open>Indexing of a one-dimensional array; a negative index counts from the end.\<close>

definition getitem :: "'a list \<Rightarrow> int \<Rightarrow> error + 'a" where
  "getitem xs i =
     (if 0 \<le> i \<and> i < int (length xs) then Inr (xs ! nat i)
      else if i < 0 \<and> - int (length xs) \<le> i then Inr (xs ! nat (int (length xs) + i))
      else Inl IndexError)"

text \<open>\<^verbatim>\<open>x.min()\<close> and \<^verbatim>\<open>x.max()\<close>: numpy refuses the reduction of an empty array.\<close>

definition amin :: "real list \<Rightarrow> error + real" where
  "amin xs = (case xs of
      [] \<Rightarrow> Inl (ValueError ''zero-size array to reduction operation minimum which has no identity'')
    | a # as \<Rightarrow> Inr (fold min as a))"

definition amax :: "real list \<Rightarrow> error + real" where
  "amax xs = (case xs of
      [] \<Rightarrow> Inl (ValueError ''zero-size array to reduction operation maximum which has no identity'')
    | a # as \<Rightarrow> Inr (fold max as a))"

section \<open>Raster source adapter\<close>

text \<open>
  \<^verbatim>\<open>NumPyRasterSource(np.broadcast_to([1], shape), xmin=, xmax=, ymin=, ymax=, srs_wkt=)\<close>:
  the payload is the constant 1 at every cell, so the descriptor is its shape, its
  bounding box and the CRS text.
\<close>

record raster_source =
  shape :: "nat \<times> nat"
  xmin :: real
  xmax :: real
  ymin :: real
  ymax :: real
  srs_wkt :: "string option"

definition xy_to_raster_source ::
  "real list \<Rightarrow> real list \<Rightarrow> string option \<Rightarrow> error + raster_source" where
  "xy_to_raster_source x y srs =
     (let xsize = length x; ysize = length y in
      bind (getitem x 1) (\<lambda>x1. bind (getitem x 0) (\<lambda>x0.
      bind (getitem x (- 1)) (\<lambda>xl. bind (getitem x (- 2)) (\<lambda>xp.
      bind (getitem y 1) (\<lambda>y1. bind (getitem y 0) (\<lambda>y0.
      bind (getitem y (- 1)) (\<lambda>yl. bind (getitem y (- 2)) (\<lambda>yp.
        let dx0 = (x1 - x0) / 2;
            dx1 = (xl - xp) / 2;
            dy0 = \<bar>y1 - y0\<bar> / 2;
            dy1 = \<bar>yl - yp\<bar> / 2;
            dy = (if y0 > yl then (dy1, dy0) else (dy0, dy1))
        in
        bind (amin x) (\<lambda>xlo. bind (amax x) (\<lambda>xhi.
        bind (amin y) (\<lambda>ylo. bind (amax y) (\<lambda>yhi.
          Inr \<lparr> shape = (ysize, xsize),
                xmin = xlo - dx0,
                xmax = xhi + dx1,
                ymin = ylo - fst dy,
                ymax = yhi + snd dy,
                srs_wkt = srs \<rparr>)))))))))))))"

section \<open>Value dtype\<close>

datatype dtype = Uint8 | Float64

text \<open>\<^verbatim>\<open>str.lower()\<close> on the ASCII letters.\<close>

definition lower_char :: "char \<Rightarrow> char" where
  "lower_char c =
     (case map_of (zip ''ABCDEFGHIJKLMNOPQRSTUVWXYZ'' ''abcdefghijklmnopqrstuvwxyz'') c of
        Some l \<Rightarrow> l
      | None \<Rightarrow> c)"

definition lower :: "string \<Rightarrow> string" where
  "lower s = map lower_char s"

text \<open>The \<^verbatim>\<open>CoverageWeights\<close> literal type.\<close>

definition CoverageWeights :: "string list" where
  "CoverageWeights =
     [''area_spherical_m2'', ''area_cartesian'', ''area_spherical_km2'', ''fraction'', ''none'']"

definition get_dtype :: "string \<Rightarrow> dtype" where
  "get_dtype coverage_weight = (if lower coverage_weight = ''none'' then Uint8 else Float64)"

section \<open>Geometry tables and the overlay engine\<close>

text \<open>
  A \<^verbatim>\<open>GeoDataFrame\<close>: its active geometry column (one geometry per feature), the labels
  of all its columns, and its CRS, kept as the text \<^verbatim>\<open>crs.to_wkt()\<close> returns
  (\<open>None\<close> when the table has no CRS).
\<close>

record 'g geodataframe =
  geometry :: "'g list"
  columns :: "string list"
  crs :: "string option"

text \<open>
  \<^verbatim>\<open>exact_extract(rast=, vec=, ops=, output="pandas")\<close> is an external collaborator and a
  parameter of the model. Its result table has one row per feature of \<^verbatim>\<open>vec\<close>; row \<open>i\<close>
  holds the linear cell identifiers of feature \<open>i\<close> and the coverage values reported
  for them. The table is indexed by the row number.
\<close>

record row =
  cell_id :: "nat list"
  coverage_values :: "real list"

type_synonym 'g engine = "raster_source \<Rightarrow> 'g geodataframe \<Rightarrow> string list \<Rightarrow> nat \<Rightarrow> row"

text \<open>Every call of the engine is recorded, in order, with its arguments.\<close>

record 'g engine_call =
  rast :: raster_source
  vec :: "'g geodataframe"
  ops :: "string list"

section \<open>Single-block coverage\<close>

text \<open>
  \<^verbatim>\<open>sparse.COO(coords, data=, sorted=True, fill_value=0, shape=)\<close>: the three parallel
  coordinate arrays are kept as one list of (geometry, y, x) triples, entry \<open>k\<close> of
  \<open>coords\<close> belonging to entry \<open>k\<close> of \<open>data\<close>. The constructor is told that the
  entries are sorted and stores them in the order it receives them.
\<close>

record coo =
  coords :: "(nat \<times> nat \<times> nat) list"
  data :: "real list"
  data_dtype :: dtype
  fill_value :: real
  coo_shape :: "nat \<times> nat \<times> nat"


text \<open>
  Storing a float into an array of the given dtype. For \<^verbatim>\<open>uint8\<close> the value is truncated
  towards zero and reduced modulo 256.
\<close>

definition astype :: "dtype \<Rightarrow> real \<Rightarrow> real" where
  "astype d v =
     (case d of
        Float64 \<Rightarrow> v
      | Uint8 \<Rightarrow> of_int ((if 0 \<le> v then \<lfloor>v\<rfloor> else \<lceil>v\<rceil>) mod 256))"

text \<open>
  \<^verbatim>\<open>data[off : off + n] = values\<close> with \<open>n > 0\<close>: numpy accepts \<open>n\<close> values, repeats a
  single value, and refuses anything else.
\<close>

definition broadcast_to :: "real list \<Rightarrow> nat \<Rightarrow> error + real list" where
  "broadcast_to vals n =
     (if length vals = n then Inr vals
      else if length vals = 1 then Inr (replicate n (hd vals))
      else Inl (ValueError ''could not broadcast input array''))"

text \<open>
  \<^verbatim>\<open>np.unravel_index(xy_idxs, shape=shape)\<close>: row-major decoding; an identifier outside
  the block is refused.
\<close>

definition unravel_index :: "nat list \<Rightarrow> nat \<times> nat \<Rightarrow> error + (nat \<times> nat) list" where
  "unravel_index idxs shp =
     (if list_all (\<lambda>k. k < fst shp * snd shp) idxs
      then Inr (map (\<lambda>k. (k div snd shp, k mod snd shp)) idxs)
      else Inl (ValueError ''index is out of bounds for array''))"

text \<open>
  The loop \<^verbatim>\<open>for i in range(len(geometries))\<close>. The three arrays are allocated with
  \<^verbatim>\<open>nnz\<close> entries and filled from offset \<^verbatim>\<open>off\<close>, which is always the number of
  entries written so far: the accumulator holds the written prefix of
  \<^verbatim>\<open>geom_idxs\<close>, \<^verbatim>\<open>xy_idxs\<close> and \<^verbatim>\<open>data\<close>.
\<close>

fun fill_arrays ::
  "dtype \<Rightarrow> (nat \<Rightarrow> row) \<Rightarrow> nat list \<Rightarrow> nat list \<times> nat list \<times> real list
     \<Rightarrow> error + (nat list \<times> nat list \<times> real list)" where
  "fill_arrays d result [] acc = Inr acc"
| "fill_arrays d result (i # rest) (geom_idxs, xy_idxs, dat) =
     (let cell = cell_id (result i) in
      if length cell = 0 then fill_arrays d result rest (geom_idxs, xy_idxs, dat)
      else bind (broadcast_to (coverage_values (result i)) (length cell)) (\<lambda>vals.
             fill_arrays d result rest
               (geom_idxs @ replicate (length cell) i, xy_idxs @ cell, dat @ map (astype d) vals)))"

definition DEFAULT_STRATEGY :: string where
  "DEFAULT_STRATEGY = ''feature-sequential''"

text \<open>\<^verbatim>\<open>ops=["cell_id", f"coverage(coverage_weight={coverage_weight})"]\<close>\<close>

definition coverage_ops :: "string \<Rightarrow> string list" where
  "coverage_ops coverage_weight =
     [''cell_id'', ''coverage(coverage_weight='' @ coverage_weight @ '')'']"

definition np_coverage ::
  "'g engine \<Rightarrow> real list \<Rightarrow> real list \<Rightarrow> 'g geodataframe \<Rightarrow> string \<Rightarrow> string
     \<Rightarrow> 'g engine_call list \<times> (error + coo)" where
  "np_coverage exact_extract x y geometries strategy coverage_weight =
     (let dtype = get_dtype coverage_weight in
      if length (columns geometries) > 1
      then ([], Inl (ValueError ''Require a single geometries column or a GeoSeries.''))
      else
        let shp = (length y, length x) in
        case crs geometries of
          None \<Rightarrow> ([], Inl AttributeError)
        | Some wkt \<Rightarrow>
            (case xy_to_raster_source x y (Some wkt) of
               Inl e \<Rightarrow> ([], Inl e)
             | Inr raster \<Rightarrow>
                 let request = coverage_ops coverage_weight;
                     result = exact_extract raster geometries request;
                     n = length (geometry geometries)
                 in
                 ([\<lparr> rast = raster, vec = geometries, ops = request \<rparr>],
                  if n = 0
                  then Inl (ValueError ''cannot call `vectorize` on size 0 inputs unless `otypes` is set'')
                  else
                    bind (fill_arrays dtype result [0..<n] ([], [], [])) (\<lambda>(geom_idxs, xy_idxs, dat).
                    bind (unravel_index xy_idxs shp) (\<lambda>yx.
                      Inr \<lparr> coords = zip geom_idxs yx,
                            data = dat,
                            data_dtype = dtype,
                            fill_value = 0,
                            coo_shape = (n, shp) \<rparr>)))))"


section \<open>Chunk dispatcher\<close>

text \<open>
  A one-dimensional dask array is the list of its blocks, in order: its chunk sizes are
  the lengths of the blocks and its values their concatenation.
\<close>

type_synonym 'a dask_array = "'a list list"

definition chunks :: "'a dask_array \<Rightarrow> nat list" where
  "chunks a = map length a"

text \<open>
  \<^verbatim>\<open>dask.array.map_blocks(coverage_np_dask_wrapper, geom_array[:, None, None],
  x[None, None, :], y[None, :, None], crs=, coverage_weight=, strategy=, chunks=, meta=)\<close>
  builds a task graph and runs nothing: block \<open>(a, b, c)\<close> of the result is the wrapper
  applied to block \<open>a\<close> of the geometries, block \<open>c\<close> of \<open>x\<close> and block \<open>b\<close> of \<open>y\<close>.
  The graph is the record of these arguments.
\<close>

record 'g coverage_graph =
  geom_blocks :: "'g list list"
  y_blocks :: "real list list"
  x_blocks :: "real list list"
  graph_crs :: "string option"
  graph_coverage_weight :: string
  graph_strategy :: string
  out_chunks :: "nat list \<times> nat list \<times> nat list"
  meta_dtype :: dtype

definition coverage_np_dask_wrapper ::
  "'g engine \<Rightarrow> 'g list \<Rightarrow> real list \<Rightarrow> real list \<Rightarrow> string \<Rightarrow> string \<Rightarrow> string option
     \<Rightarrow> 'g engine_call list \<times> (error + coo)" where
  "coverage_np_dask_wrapper exact_extract geom_array x y coverage_weight strategy crs' =
     np_coverage exact_extract x y
       \<lparr> geometry = geom_array, columns = [''geometry''], crs = crs' \<rparr>
       DEFAULT_STRATEGY coverage_weight"

definition dask_coverage ::
  "real dask_array \<Rightarrow> real dask_array \<Rightarrow> 'g dask_array \<Rightarrow> string \<Rightarrow> string \<Rightarrow> string option
     \<Rightarrow> error + 'g coverage_graph" where
  "dask_coverage x y geom_array coverage_weight strategy crs' =
     (if list_ex (\<lambda>c. c = 1) (chunks x) \<or> list_ex (\<lambda>c. c = 1) (chunks y)
      then Inl (ValueError
        ''exactextract does not support a chunksize of 1. Please rechunk to avoid this'')
      else Inr \<lparr> geom_blocks = geom_array,
                 y_blocks = y,
                 x_blocks = x,
                 graph_crs = crs',
                 graph_coverage_weight = coverage_weight,
                 graph_strategy = strategy,
                 out_chunks = (chunks geom_array, chunks y, chunks x),
                 meta_dtype = get_dtype coverage_weight \<rparr>)"

text \<open>
  Materialising the graph runs every block; the blocks are independent of each other.
  \<open>compute\<close> gives, for every block, the engine calls it made and its outcome.
\<close>

definition compute ::
  "'g engine \<Rightarrow> 'g coverage_graph \<Rightarrow> ('g engine_call list \<times> (error + coo)) list list list" where
  "compute exact_extract G =
     map (\<lambda>gb. map (\<lambda>yb. map (\<lambda>xb.
        coverage_np_dask_wrapper exact_extract gb xb yb
          (graph_coverage_weight G) (graph_strategy G) (graph_crs G))
       (x_blocks G)) (y_blocks G)) (geom_blocks G)"

text \<open>All engine calls made while the graph is materialised.\<close>

definition compute_calls :: "'g engine \<Rightarrow> 'g coverage_graph \<Rightarrow> 'g engine_call list" where
  "compute_calls exact_extract G = concat (map fst (concat (concat (compute exact_extract G))))"




text \<open>
  \<^verbatim>\<open>dask_coverage(...).compute()\<close>: the graph is built and then materialised. Nothing
  runs when \<^verbatim>\<open>dask_coverage\<close> raises.
\<close>

definition dask_coverage_compute ::
  "'g engine \<Rightarrow> real dask_array \<Rightarrow> real dask_array \<Rightarrow> 'g dask_array \<Rightarrow> string \<Rightarrow> string
     \<Rightarrow> string option
     \<Rightarrow> 'g engine_call list \<times> (error + ('g engine_call list \<times> (error + coo)) list list list)" where
  "dask_coverage_compute exact_extract x y geom_array coverage_weight strategy crs' =
     (case dask_coverage x y geom_array coverage_weight strategy crs' of
        Inl e \<Rightarrow> ([], Inl e)
      | Inr G \<Rightarrow> (compute_calls exact_extract G, Inr (compute exact_extract G)))"


section \<open>Public entry point\<close>

text \<open>
  The gridded object, as far as \<^verbatim>\<open>coverage\<close> reads it: the payload of its
  \<^verbatim>\<open>spatial_ref\<close> coordinate (\<open>None\<close> when \<^verbatim>\<open>"spatial_ref" not in obj.coords\<close>), the
  data of its named variables, its \<^verbatim>\<open>chunksizes\<close> and its \<^verbatim>\<open>xindexes\<close>.
\<close>

datatype 'a array_data = NumpyArray "'a list" | DaskArray "'a dask_array"

record 's xr_object =
  spatial_ref :: "'s option"
  variables :: "(string \<times> real array_data) list"
  chunksizes :: "(string \<times> nat list) list"
  xindexes :: "(string \<times> real list) list"

text \<open>
  The geometry collection: an in-memory table, or a partitioned (dask-geopandas) table
  given by its partitions, its column labels and its CRS.
\<close>

datatype 'g geometries =
    GeoDataFrame "'g geodataframe"
  | DaskGeoDataFrame "'g list list" "string list" "string option"

definition geometries_crs :: "'g geometries \<Rightarrow> string option" where
  "geometries_crs geoms =
     (case geoms of GeoDataFrame t \<Rightarrow> crs t | DaskGeoDataFrame ps cols c \<Rightarrow> c)"

text \<open>
  Modelled from the spec: \<^verbatim>\<open>is_in_memory\<close> of \<^verbatim>\<open>rasterix/rasterize/utils.py\<close> is not
  part of the sources at hand. The Mode Selector "inspects whether the gridded object
  and the geometry collection are both fully materialized in memory".
\<close>

definition is_in_memory :: "'s xr_object \<Rightarrow> 'g geometries \<Rightarrow> bool" where
  "is_in_memory obj geoms =
     (chunksizes obj = [] \<and>
      list_all (\<lambda>v. case snd v of NumpyArray xs \<Rightarrow> True | DaskArray bs \<Rightarrow> False) (variables obj) \<and>
      (case geoms of GeoDataFrame t \<Rightarrow> True | DaskGeoDataFrame ps cols c \<Rightarrow> False))"

text \<open>
  Modelled from the spec: \<^verbatim>\<open>geometries_as_dask_array\<close> of
  \<^verbatim>\<open>rasterix/rasterize/utils.py\<close> is not part of the sources at hand. It "normalizes the
  geometry collection into its chunked representation", one chunk dimension aligned with
  the geometry index: an in-memory table becomes a single chunk, a partitioned table
  one chunk per partition.
\<close>

definition geometries_as_dask_array :: "'g geometries \<Rightarrow> 'g dask_array" where
  "geometries_as_dask_array geoms =
     (case geoms of GeoDataFrame t \<Rightarrow> [geometry t] | DaskGeoDataFrame ps cols c \<Rightarrow> ps)"

text \<open>
  \<^verbatim>\<open>dask.array.from_array(data, chunks=)\<close>: \<^verbatim>\<open>-1\<close> asks for one chunk, a tuple gives the
  chunk sizes, which must add up to the length of the array.
\<close>

datatype chunk_spec = Whole | Sizes "nat list"

fun split_chunks :: "nat list \<Rightarrow> 'a list \<Rightarrow> 'a list list" where
  "split_chunks [] xs = []"
| "split_chunks (c # cs) xs = take c xs # split_chunks cs (drop c xs)"

definition from_array :: "'a list \<Rightarrow> chunk_spec \<Rightarrow> error + 'a dask_array" where
  "from_array xs spec =
     (case spec of
        Whole \<Rightarrow> Inr [xs]
      | Sizes cs \<Rightarrow>
          if sum_list cs = length xs then Inr (split_chunks cs xs)
          else Inl (ValueError ''Chunks do not add up to shape''))"

text \<open>\<^verbatim>\<open>obj[dim].data\<close>\<close>

definition variable_data :: "'s xr_object \<Rightarrow> string \<Rightarrow> error + real array_data" where
  "variable_data obj dname =
     (case map_of (variables obj) dname of None \<Rightarrow> Inl (KeyError dname) | Some d \<Rightarrow> Inr d)"

text \<open>
  The values of a coordinate array. On the in-memory route the array is a numpy array;
  a chunked array has the values of its blocks in order.
\<close>

definition array_values :: "'a array_data \<Rightarrow> 'a list" where
  "array_values d = (case d of NumpyArray xs \<Rightarrow> xs | DaskArray bs \<Rightarrow> concat bs)"

text \<open>
  Lines 219 to 227: a coordinate array that is not a dask array is wrapped with
  \<^verbatim>\<open>from_array(obj[dim].data, chunks=obj.chunksizes.get(dim, -1))\<close>, a dask array is
  taken as it is.
\<close>

definition as_dask :: "'s xr_object \<Rightarrow> string \<Rightarrow> error + real dask_array" where
  "as_dask obj dname =
     bind (variable_data obj dname) (\<lambda>d.
       case d of
         DaskArray bs \<Rightarrow> Inr bs
       | NumpyArray xs \<Rightarrow>
           from_array xs (case map_of (chunksizes obj) dname of None \<Rightarrow> Whole | Some cs \<Rightarrow> Sizes cs))"

text \<open>
  \<^verbatim>\<open>geometries.to_numpy().squeeze(axis=1)\<close>: the table as a two-dimensional array, whose
  second axis can be dropped only when the table has exactly one column.
\<close>

definition squeeze_columns :: "'g geodataframe \<Rightarrow> error + 'g list" where
  "squeeze_columns t =
     (if length (columns t) = 1 then Inr (geometry t)
      else Inl (ValueError
        ''cannot select an axis to squeeze out which has size not equal to one''))"

datatype 'g coverage_data = Eager coo | Lazy "'g coverage_graph"

datatype 'g geometry_coord = GeometryValues "'g list" | GeometryChunks "'g dask_array"

record ('g, 's) data_array =
  dims :: "string list"
  da_data :: "'g coverage_data"
  coord_spatial_ref :: 's
  coord_geometry :: "'g geometry_coord"
  index_coords :: "(string \<times> real list) list"
  attrs :: "(string \<times> string) list"
  name :: string

text \<open>\<^verbatim>\<open>str.removesuffix\<close>\<close>

definition removesuffix :: "string \<Rightarrow> string \<Rightarrow> string" where
  "removesuffix s suf = (if suffix suf s then take (length s - length suf) s else s)"

text \<open>Lines 242 to 251: the name and the attributes of the output.\<close>

definition output_name :: "string \<Rightarrow> string" where
  "output_name coverage_weight =
     (if sublist ''area'' coverage_weight then ''area'' else ''coverage'')"

definition output_attrs :: "string \<Rightarrow> (string \<times> string) list" where
  "output_attrs coverage_weight =
     (if sublist ''_m2'' coverage_weight \<or> coverage_weight = ''area_cartesian''
      then [(''long_name'', removesuffix coverage_weight ''_m2''), (''units'', ''m2'')]
      else if sublist ''_km2'' coverage_weight
      then [(''long_name'', removesuffix coverage_weight ''_km2''), (''units'', ''km2'')]
      else [])"

text \<open>Lines 253 to 269: the labelled output around the computed data.\<close>

definition assemble_output ::
  "'s xr_object \<Rightarrow> 's \<Rightarrow> string \<Rightarrow> string \<Rightarrow> string \<Rightarrow> 'g coverage_data \<Rightarrow> 'g geometry_coord
     \<Rightarrow> ('g, 's) data_array" where
  "assemble_output obj sr xdim ydim coverage_weight out geom_array =
     \<lparr> dims = [''geometry'', ydim, xdim],
       da_data = out,
       coord_spatial_ref = sr,
       coord_geometry = geom_array,
       index_coords = concat (map (\<lambda>dname. case map_of (xindexes obj) dname of
                                              None \<Rightarrow> [] | Some ix \<Rightarrow> [(dname, ix)]) [xdim, ydim]),
       attrs = output_attrs coverage_weight,
       name = output_name coverage_weight \<rparr>"

text \<open>
  \<^verbatim>\<open>coverage(obj, geometries, xdim=, ydim=, strategy=, coverage_weight=)\<close>. The result is
  the list of engine calls made before \<^verbatim>\<open>coverage\<close> returns or raises, and its outcome.
  On the chunked route the data of the output is the task graph.
\<close>

definition coverage ::
  "'g engine \<Rightarrow> 's xr_object \<Rightarrow> 'g geometries \<Rightarrow> string \<Rightarrow> string \<Rightarrow> string \<Rightarrow> string
     \<Rightarrow> 'g engine_call list \<times> (error + ('g, 's) data_array)" where
  "coverage exact_extract obj geoms xdim ydim strategy coverage_weight =
     (case spatial_ref obj of
        None \<Rightarrow> ([], Inl (ValueError ''Xarray object must contain the `spatial_ref` variable.''))
      | Some sr \<Rightarrow>
          if is_in_memory obj geoms then
            (case geoms of
               GeoDataFrame t \<Rightarrow>
                 (case bind (variable_data obj xdim) (\<lambda>xd.
                       bind (variable_data obj ydim) (\<lambda>yd. Inr (xd, yd))) of
                    Inl e \<Rightarrow> ([], Inl e)
                  | Inr xy \<Rightarrow>
                      (let r = np_coverage exact_extract (array_values (fst xy))
                                 (array_values (snd xy)) t strategy coverage_weight
                       in (fst r,
                           bind (snd r) (\<lambda>out.
                           bind (squeeze_columns t) (\<lambda>geom_array.
                             Inr (assemble_output obj sr xdim ydim coverage_weight
                                    (Eager out) (GeometryValues geom_array)))))))
             | DaskGeoDataFrame ps cols c \<Rightarrow> ([], Inl AttributeError))
          else
            ([],
             let geom_dask_array = geometries_as_dask_array geoms in
             bind (as_dask obj xdim) (\<lambda>dask_x.
             bind (as_dask obj ydim) (\<lambda>dask_y.
             bind (dask_coverage dask_x dask_y geom_dask_array coverage_weight strategy
                     (geometries_crs geoms)) (\<lambda>out.
             bind (case geoms of
                     GeoDataFrame t \<Rightarrow> map_sum id GeometryValues (squeeze_columns t)
                   | DaskGeoDataFrame ps cols c \<Rightarrow> Inr (GeometryChunks geom_dask_array))
               (\<lambda>geom_array.
                  Inr (assemble_output obj sr xdim ydim coverage_weight (Lazy out) geom_array)))))))"

section \<open>A reference engine for boxes\<close>

text \<open>
  An instance of the engine parameter, used to run the model on concrete inputs. A
  geometry is an axis-aligned box \<open>(x0, x1, y0, y1)\<close>. The raster descriptor defines a
  uniform grid of \<open>ny \<times> nx\<close> cells over its bounding box, row 0 at \<open>ymax\<close>; the engine
  reports, in row-major order, every cell that the box covers with positive area,
  together with the covered fraction of the cell.
\<close>

type_synonym box = "real \<times> real \<times> real \<times> real"

definition overlap :: "real \<Rightarrow> real \<Rightarrow> real \<Rightarrow> real \<Rightarrow> real" where
  "overlap a b c d = max 0 (min b d - max a c)"

definition box_fraction :: "raster_source \<Rightarrow> box \<Rightarrow> nat \<Rightarrow> real" where
  "box_fraction r b k =
     (case b of (bx0, bx1, by0, by1) \<Rightarrow>
        let ny = fst (shape r); nx = snd (shape r);
            w = (xmax r - xmin r) / real nx;
            h = (ymax r - ymin r) / real ny;
            left = xmin r + real (k mod nx) * w;
            top = ymax r - real (k div nx) * h
        in overlap left (left + w) bx0 bx1 * overlap (top - h) top by0 by1 / (w * h))"

definition box_engine :: "box engine" where
  "box_engine r t request i =
     (let cells = filter (\<lambda>k. 0 < box_fraction r (geometry t ! i) k)
                    [0..<fst (shape r) * snd (shape r)]
      in \<lparr> cell_id = cells, coverage_values = map (box_fraction r (geometry t ! i)) cells \<rparr>)"

text \<open>An engine that reports the same row for every feature, whatever the raster.\<close>

definition constant_engine :: "row \<Rightarrow> 'g engine" where
  "constant_engine r rs t request i = r"

section \<open>Properties of the raster source adapter\<close>

lemma bind_Inr [simp]: "bind (Inr v) f = f v"
  by (simp add: bind_def)

lemma bind_Inl [simp]: "bind (Inl e) f = Inl e"
  by (simp add: bind_def)

lemma bind_eq_Inr: "bind m f = Inr r \<longleftrightarrow> (\<exists>v. m = Inr v \<and> f v = Inr r)"
  by (cases m) simp_all

lemma getitem_in_range:
  assumes "2 \<le> length xs"
  shows "getitem xs 1 = Inr (xs ! 1)" and "getitem xs 0 = Inr (xs ! 0)"
    and "getitem xs (- 1) = Inr (last xs)" and "getitem xs (- 2) = Inr (xs ! (length xs - 2))"
proof -
  have ne: "xs \<noteq> []" using assms by (cases xs) simp_all
  show "getitem xs 1 = Inr (xs ! 1)" and "getitem xs 0 = Inr (xs ! 0)"
    using assms ne by (simp_all add: getitem_def)
  show "getitem xs (- 1) = Inr (last xs)"
    using assms ne by (simp add: getitem_def last_conv_nth nat_diff_distrib')
  show "getitem xs (- 2) = Inr (xs ! (length xs - 2))"
    using assms by (simp add: getitem_def nat_diff_distrib')
qed

lemma getitem_short: "length xs < 2 \<Longrightarrow> getitem xs 1 = Inl IndexError"
  by (simp add: getitem_def)

lemma amin_Min: "xs \<noteq> [] \<Longrightarrow> amin xs = Inr (Min (set xs))"
proof (cases xs)
  case (Cons a as)
  then show ?thesis using Min.set_eq_fold[of a as] by (simp add: amin_def)
qed simp

lemma amax_Max: "xs \<noteq> [] \<Longrightarrow> amax xs = Inr (Max (set xs))"
proof (cases xs)
  case (Cons a as)
  then show ?thesis using Max.set_eq_fold[of a as] by (simp add: amax_def)
qed simp

lemma xy_to_raster_source_eq:
  assumes "2 \<le> length x" and "2 \<le> length y"
  shows "xy_to_raster_source x y srs =
     Inr \<lparr> shape = (length y, length x),
           xmin = Min (set x) - (x ! 1 - x ! 0) / 2,
           xmax = Max (set x) + (last x - x ! (length x - 2)) / 2,
           ymin = Min (set y) - (if y ! 0 > last y then \<bar>last y - y ! (length y - 2)\<bar> / 2
                                 else \<bar>y ! 1 - y ! 0\<bar> / 2),
           ymax = Max (set y) + (if y ! 0 > last y then \<bar>y ! 1 - y ! 0\<bar> / 2
                                 else \<bar>last y - y ! (length y - 2)\<bar> / 2),
           srs_wkt = srs \<rparr>"
proof -
  from assms have ne: "x \<noteq> []" "y \<noteq> []" by auto
  show ?thesis
    unfolding xy_to_raster_source_def
    by (simp add: getitem_in_range[OF assms(1)] getitem_in_range[OF assms(2)]
        amin_Min[OF ne(1)] amin_Min[OF ne(2)] amax_Max[OF ne(1)] amax_Max[OF ne(2)] Let_def)
qed

lemma xy_to_raster_source_short:
  assumes "length x < 2 \<or> length y < 2"
  shows "xy_to_raster_source x y srs = Inl IndexError"
proof (cases "length x < 2")
  case True
  then show ?thesis
    unfolding xy_to_raster_source_def by (simp add: getitem_short Let_def)
next
  case False
  with assms have "2 \<le> length x" "length y < 2" by auto
  then show ?thesis
    unfolding xy_to_raster_source_def
    by (simp add: getitem_in_range getitem_short Let_def)
qed

text \<open>
  C2: for axes of length at least 2 the descriptor has shape \<open>(len(y), len(x))\<close>,
  \<open>xmin = x.min() - (x[1] - x[0]) / 2\<close>, \<open>xmax = x.max() + (x[-1] - x[-2]) / 2\<close>, and for
  \<open>y\<close> the absolute half-distances \<open>|y[1] - y[0]| / 2\<close> and \<open>|y[-1] - y[-2]| / 2\<close>,
  exchanged when \<open>y[0] > y[-1]\<close>, the first subtracted from \<open>y.min()\<close> and the second
  added to \<open>y.max()\<close>.
\<close>

theorem xy_to_raster_source_bounds:
  assumes "2 \<le> length x" and "2 \<le> length y"
  shows "\<exists>r. xy_to_raster_source x y srs = Inr r
     \<and> shape r = (length y, length x)
     \<and> xmin r = Min (set x) - (x ! 1 - x ! 0) / 2
     \<and> xmax r = Max (set x) + (last x - x ! (length x - 2)) / 2
     \<and> ymin r = Min (set y) - (if y ! 0 > last y then \<bar>last y - y ! (length y - 2)\<bar> / 2
                                else \<bar>y ! 1 - y ! 0\<bar> / 2)
     \<and> ymax r = Max (set y) + (if y ! 0 > last y then \<bar>y ! 1 - y ! 0\<bar> / 2
                                else \<bar>last y - y ! (length y - 2)\<bar> / 2)"
  by (simp add: xy_to_raster_source_eq[OF assms])

theorem xy_to_raster_source_bounds_witness:
  "2 \<le> length [1/2, 3/2, 5/2, 7/2 :: real] \<and> 2 \<le> length [7/2, 5/2, 3/2, 1/2 :: real]
   \<and> (\<exists>r. xy_to_raster_source [1/2, 3/2, 5/2, 7/2] [7/2, 5/2, 3/2, 1/2] None = Inr r
        \<and> shape r = (4, 4) \<and> xmin r = 0 \<and> xmax r = 4 \<and> ymin r = 0 \<and> ymax r = 4)"
proof -
  have hx: "2 \<le> length [1/2, 3/2, 5/2, 7/2 :: real]" by simp
  have hy: "2 \<le> length [7/2, 5/2, 3/2, 1/2 :: real]" by simp
  show ?thesis
    using hx hy xy_to_raster_source_bounds[OF hx hy, of None] by auto
qed

lemma strict_ascending_ends:
  assumes "2 \<le> length y" and "sorted_wrt (<) y"
  shows "y ! 0 < last y" and "y ! 0 < y ! 1" and "y ! (length y - 2) < last y"
proof -
  have ne: "y \<noteq> []" using assms(1) by (cases y) simp_all
  have l: "last y = y ! (length y - 1)" using ne by (simp add: last_conv_nth)
  show "y ! 0 < last y"
    unfolding l using assms sorted_wrt_nth_less[OF assms(2), of 0 "length y - 1"] by simp
  show "y ! 0 < y ! 1"
    using assms sorted_wrt_nth_less[OF assms(2), of 0 1] by simp
  show "y ! (length y - 2) < last y"
    unfolding l using assms sorted_wrt_nth_less[OF assms(2), of "length y - 2" "length y - 1"] by simp
qed

lemma rev_ends:
  assumes "2 \<le> length y"
  shows "rev y ! 0 = last y" and "rev y ! 1 = y ! (length y - 2)"
    and "last (rev y) = y ! 0" and "rev y ! (length y - 2) = y ! 1"
proof -
  have ne: "y \<noteq> []" using assms by (cases y) simp_all
  show "rev y ! 0 = last y" using ne by (simp add: rev_nth last_conv_nth)
  show "rev y ! 1 = y ! (length y - 2)" using assms by (simp add: rev_nth numeral_2_eq_2)
  show "last (rev y) = y ! 0" using ne by (simp add: last_rev hd_conv_nth)
  have "length y - Suc (length y - 2) = 1" using assms by arith
  then show "rev y ! (length y - 2) = y ! 1"
    using assms by (simp add: rev_nth)
qed

lemma y_interval_reverse_ascending:
  assumes "2 \<le> length x" and "2 \<le> length y" and "sorted_wrt (<) y"
  shows "xy_to_raster_source x (rev y) srs = xy_to_raster_source x y srs"
proof -
  have ry: "2 \<le> length (rev y)" using assms(2) by simp
  note e = strict_ascending_ends[OF assms(2,3)]
  note r = rev_ends[OF assms(2)]
  have a: "\<not> y ! 0 > last y" using e(1) by simp
  have b: "rev y ! 0 > last (rev y)" using e(1) r by simp
  show ?thesis
    unfolding xy_to_raster_source_eq[OF assms(1) ry] xy_to_raster_source_eq[OF assms(1,2)]
    using a b r by (simp add: abs_minus_commute)
qed

text \<open>
  For a strictly monotonic \<open>y\<close> axis the descriptor does not depend on the direction of
  the axis, and its \<open>y\<close> extent reaches half a boundary cell beyond the outer centres.
\<close>

lemma y_interval_reverse:
  assumes "2 \<le> length x" and "2 \<le> length y" and "sorted_wrt (<) y \<or> sorted_wrt (>) y"
  shows "xy_to_raster_source x (rev y) srs = xy_to_raster_source x y srs"
proof -
  from assms(3) show ?thesis
  proof
    assume "sorted_wrt (<) y"
    then show ?thesis by (rule y_interval_reverse_ascending[OF assms(1,2)])
  next
    assume "sorted_wrt (>) y"
    then have "sorted_wrt (<) (rev y)" by (simp add: sorted_wrt_rev)
    moreover have "2 \<le> length (rev y)" using assms(2) by simp
    ultimately have "xy_to_raster_source x (rev (rev y)) srs = xy_to_raster_source x (rev y) srs"
      using y_interval_reverse_ascending[OF assms(1), of "rev y" srs] by blast
    then show ?thesis by simp
  qed
qed

lemma y_interval_ascending:
  assumes "2 \<le> length x" and "2 \<le> length y" and "sorted_wrt (<) y"
    and "xy_to_raster_source x y srs = Inr r"
  shows "ymin r = y ! 0 - (y ! 1 - y ! 0) / 2"
    and "ymax r = last y + (last y - y ! (length y - 2)) / 2"
proof -
  note e = strict_ascending_ends[OF assms(2,3)]
  have ne: "y \<noteq> []" using assms(2) by (cases y) simp_all
  have s: "sorted y" using assms(3) by (simp add: strict_sorted_iff)
  have l: "last y = y ! (length y - 1)" using ne by (simp add: last_conv_nth)
  have lo: "y ! 0 \<le> z" and hi: "z \<le> last y" if "z \<in> set y" for z
  proof -
    from that obtain i where i: "i < length y" "y ! i = z" by (auto simp: in_set_conv_nth)
    show "y ! 0 \<le> z" using sorted_nth_mono[OF s, of 0 i] i by simp
    show "z \<le> last y" unfolding l using sorted_nth_mono[OF s, of i "length y - 1"] i by simp
  qed
  have mn: "Min (set y) = y ! 0"
    using ne lo by (intro Min_eqI) simp_all
  have mx: "Max (set y) = last y"
    using ne hi by (intro Max_eqI) simp_all
  show "ymin r = y ! 0 - (y ! 1 - y ! 0) / 2"
    and "ymax r = last y + (last y - y ! (length y - 2)) / 2"
    using assms(4) e mn mx unfolding xy_to_raster_source_eq[OF assms(1,2)] by auto
qed

text \<open>
  C3, at a strictly descending \<open>x\<close> axis: the signed half-distances are negative there,
  so the interval shrinks by half a cell on each side instead of growing, and it is not
  the interval of the reversed (ascending) axis.
\<close>

theorem xy_to_raster_source_descending_x:
  "xy_to_raster_source [3, 2, 1] [1, 0] None =
     Inr \<lparr> shape = (2, 3), xmin = 3 / 2, xmax = 5 / 2, ymin = - 1 / 2, ymax = 3 / 2, srs_wkt = None \<rparr>
   \<and> xy_to_raster_source (rev [3, 2, 1]) [1, 0] None =
     Inr \<lparr> shape = (2, 3), xmin = 1 / 2, xmax = 7 / 2, ymin = - 1 / 2, ymax = 3 / 2, srs_wkt = None \<rparr>"
  by (simp add: xy_to_raster_source_def getitem_def amin_def amax_def)

section \<open>Properties of the single-block computation\<close>

lemma np_coverage_Inr:
  assumes "snd (np_coverage e x y t st cw) = Inr a"
  obtains wkt raster gi xi da yx where
    "length (columns t) \<le> 1" and "crs t = Some wkt"
    and "xy_to_raster_source x y (Some wkt) = Inr raster"
    and "0 < length (geometry t)"
    and "fill_arrays (get_dtype cw) (e raster t (coverage_ops cw)) [0..<length (geometry t)]
           ([], [], []) = Inr (gi, xi, da)"
    and "unravel_index xi (length y, length x) = Inr yx"
    and "a = \<lparr> coords = zip gi yx, data = da, data_dtype = get_dtype cw, fill_value = 0,
               coo_shape = (length (geometry t), length y, length x) \<rparr>"
    and "fst (np_coverage e x y t st cw) = [\<lparr> rast = raster, vec = t, ops = coverage_ops cw \<rparr>]"
  using assms
  by (auto simp: np_coverage_def Let_def bind_eq_Inr
      split: if_splits option.splits sum.splits prod.splits)


lemma get_dtype_literal:
  assumes "cw \<in> set CoverageWeights"
  shows "get_dtype cw = (if cw = ''none'' then Uint8 else Float64)"
  using assms by (auto simp: CoverageWeights_def get_dtype_def lower_def lower_char_def)

text \<open>The comparison is made after \<^verbatim>\<open>lower()\<close>: spellings outside the literal type count too.\<close>

lemma get_dtype_upper_case: "get_dtype ''NONE'' = Uint8"
  by (simp add: get_dtype_def lower_def lower_char_def)

text \<open>
  C6: for each of the five weighting modes the value dtype of the result is unsigned
  8-bit exactly when the mode is \<open>none\<close> and 64-bit float otherwise, for the in-memory
  result and for the prototype (meta) of the chunked result.
\<close>

theorem coverage_dtype:
  assumes "cw \<in> set CoverageWeights"
  shows "(get_dtype cw = Uint8 \<longleftrightarrow> cw = ''none'')
     \<and> (cw \<noteq> ''none'' \<longrightarrow> get_dtype cw = Float64)
     \<and> (\<forall>a. snd (np_coverage e x y t st cw) = Inr a \<longrightarrow> data_dtype a = get_dtype cw)
     \<and> (\<forall>G. dask_coverage dx dy dg cw st c = Inr G \<longrightarrow> meta_dtype G = get_dtype cw)"
proof -
  have "data_dtype a = get_dtype cw" if "snd (np_coverage e x y t st cw) = Inr a" for a
    using that by (rule np_coverage_Inr) simp
  moreover have "meta_dtype G = get_dtype cw" if "dask_coverage dx dy dg cw st c = Inr G" for G
    using that by (auto simp: dask_coverage_def split: if_splits)
  ultimately show ?thesis
    using get_dtype_literal[OF assms] by auto
qed

section \<open>Properties of the chunk dispatcher\<close>

lemma list_ex_one: "list_ex (\<lambda>c. c = Suc 0) cs \<longleftrightarrow> Suc 0 \<in> set cs"
  by (auto simp: list_ex_iff)

text \<open>
  C7: \<open>dask_coverage\<close> raises its usage error exactly when an \<open>x\<close> or \<open>y\<close> chunk has
  size 1, whatever the geometry chunks are; it then returns no graph, and materialising
  makes no engine call. Otherwise it returns the graph with the chunk layout of its
  arguments.
\<close>

theorem dask_coverage_chunk_check:
  "(dask_coverage x y g cw st c =
      Inl (ValueError ''exactextract does not support a chunksize of 1. Please rechunk to avoid this'')
      \<longleftrightarrow> 1 \<in> set (chunks x) \<or> 1 \<in> set (chunks y))
   \<and> ((\<exists>err. dask_coverage x y g cw st c = Inl err) \<longleftrightarrow> 1 \<in> set (chunks x) \<or> 1 \<in> set (chunks y))
   \<and> ((\<exists>G. dask_coverage x y g cw st c = Inr G \<and> out_chunks G = (chunks g, chunks y, chunks x))
        \<longleftrightarrow> \<not> (1 \<in> set (chunks x) \<or> 1 \<in> set (chunks y)))
   \<and> (1 \<in> set (chunks x) \<or> 1 \<in> set (chunks y) \<longrightarrow>
        fst (dask_coverage_compute e x y g cw st c) = []
        \<and> (\<exists>err. snd (dask_coverage_compute e x y g cw st c) = Inl err))"
  by (auto simp: dask_coverage_def dask_coverage_compute_def list_ex_one)

section \<open>The assembled arrays\<close>













section \<open>A worked block\<close>



lemma worked_block_none:
  "snd (np_coverage box_engine [0, 1] [1, 0]
     \<lparr> geometry = [(- 1 / 2, 1 / 2, - 1 / 2, 1 / 2), (5, 6, 5, 6)],
       columns = [''geometry''], crs = Some ''EPSG:4326'' \<rparr> ''feature-sequential'' ''none'')
   = Inr \<lparr> coords = [(0, 1, 0)], data = [1], data_dtype = Uint8, fill_value = 0,
            coo_shape = (2, 2, 2) \<rparr>"
  by code_simp


section \<open>Count and sparsity of a block result\<close>






theorem coverage_dtype_witness:
  "''none'' \<in> set CoverageWeights \<and> get_dtype ''none'' = Uint8
   \<and> data_dtype \<lparr> coords = [(0, 1, 0)], data = [1], data_dtype = Uint8, fill_value = 0,
                   coo_shape = (2, 2, 2) \<rparr> = get_dtype ''none''"
proof -
  have h: "''none'' \<in> set CoverageWeights" by (simp add: CoverageWeights_def)
  from coverage_dtype[OF h, of box_engine "[0, 1]" "[1, 0]"
      "\<lparr> geometry = [(- 1 / 2, 1 / 2, - 1 / 2, 1 / 2), (5, 6, 5, 6)],
         columns = [''geometry''], crs = Some ''EPSG:4326'' \<rparr>" "''feature-sequential''"]
    worked_block_none h
  show ?thesis by auto
qed

theorem dask_coverage_chunk_check_witness:
  "dask_coverage [[0, 1], [2]] [[1, 0]] [[()]] ''fraction'' ''feature-sequential'' (Some ''EPSG:4326'')
     = Inl (ValueError ''exactextract does not support a chunksize of 1. Please rechunk to avoid this'')
   \<and> 1 \<in> set (chunks [[0, 1], [2 :: real]])
   \<and> fst (dask_coverage_compute (constant_engine \<lparr> cell_id = [0], coverage_values = [0] \<rparr>)
            [[0, 1], [2]] [[1, 0]] [[()]] ''fraction'' ''feature-sequential'' (Some ''EPSG:4326'')) = []
   \<and> (\<exists>G. dask_coverage [[0, 1], [2, 3]] [[1, 0]] [[()]] ''fraction'' ''feature-sequential''
              (Some ''EPSG:4326'') = Inr G
          \<and> out_chunks G = (chunks [[()]], chunks [[1, 0 :: real]], chunks [[0, 1], [2, 3 :: real]]))"
proof -
  have h: "1 \<in> set (chunks [[0, 1], [2 :: real]])" by (simp add: chunks_def)
  have k: "\<not> (1 \<in> set (chunks [[0, 1], [2, 3 :: real]]) \<or> 1 \<in> set (chunks [[1, 0 :: real]]))"
    by (simp add: chunks_def)
  from dask_coverage_chunk_check[of "[[0, 1], [2]]" "[[1, 0]]" "[[()]]" "''fraction''"
      "''feature-sequential''" "Some ''EPSG:4326''"
      "constant_engine \<lparr> cell_id = [0], coverage_values = [0] \<rparr>"] h
  have 1: "dask_coverage [[0, 1], [2]] [[1, 0]] [[()]] ''fraction'' ''feature-sequential'' (Some ''EPSG:4326'')
     = Inl (ValueError ''exactextract does not support a chunksize of 1. Please rechunk to avoid this'')
   \<and> fst (dask_coverage_compute (constant_engine \<lparr> cell_id = [0], coverage_values = [0] \<rparr>)
            [[0, 1], [2]] [[1, 0]] [[()]] ''fraction'' ''feature-sequential'' (Some ''EPSG:4326'')) = []"
    by blast
  from dask_coverage_chunk_check[of "[[0, 1], [2, 3]]" "[[1, 0]]" "[[()]]" "''fraction''"
      "''feature-sequential''" "Some ''EPSG:4326''"] k
  have 2: "\<exists>G. dask_coverage [[0, 1], [2, 3]] [[1, 0]] [[()]] ''fraction'' ''feature-sequential''
              (Some ''EPSG:4326'') = Inr G
          \<and> out_chunks G = (chunks [[()]], chunks [[1, 0 :: real]], chunks [[0, 1], [2, 3 :: real]])"
    by blast
  from 1 2 h show ?thesis by blast
qed

section \<open>Properties of the public entry point\<close>

lemma split_chunks_exact:
  assumes "sum_list cs = length xs"
  shows "concat (split_chunks cs xs) = xs \<and> map length (split_chunks cs xs) = cs"
  using assms
proof (induction cs arbitrary: xs)
  case Nil
  then show ?case by simp
next
  case (Cons c cs)
  from Cons.prems have "sum_list cs = length (drop c xs)" and "c \<le> length xs" by simp_all
  with Cons.IH[of "drop c xs"] show ?case by simp
qed

lemma as_dask_numpy:
  assumes "variable_data obj d = Inr (NumpyArray xs)" and "as_dask obj d = Inr bs"
  shows "concat bs = xs"
    and "chunks bs = (case map_of (chunksizes obj) d of None \<Rightarrow> [length xs] | Some cs \<Rightarrow> cs)"
  using assms split_chunks_exact[of _ xs]
  by (auto simp: as_dask_def from_array_def chunks_def split: option.splits if_splits)

lemma as_dask_dask:
  assumes "variable_data obj d = Inr (DaskArray bs)"
  shows "as_dask obj d = Inr bs"
  using assms by (simp add: as_dask_def)

lemma coverage_chunked:
  assumes "\<not> is_in_memory obj geoms" and "snd (coverage e obj geoms xdim ydim st cw) = Inr out"
  obtains sr dask_x dask_y G where "spatial_ref obj = Some sr"
    and "as_dask obj xdim = Inr dask_x" and "as_dask obj ydim = Inr dask_y"
    and "dask_coverage dask_x dask_y (geometries_as_dask_array geoms) cw st (geometries_crs geoms) = Inr G"
    and "da_data out = Lazy G" and "coord_spatial_ref out = sr"
  using assms
  by (auto simp: coverage_def Let_def bind_eq_Inr assemble_output_def split: option.splits)

lemma dask_coverage_Inr:
  assumes "dask_coverage x y g cw st c = Inr G"
  shows "x_blocks G = x" and "y_blocks G = y" and "geom_blocks G = g" and "graph_crs G = c"
    and "graph_coverage_weight G = cw"
  using assms by (auto simp: dask_coverage_def split: if_splits)

text \<open>
  C9, as the code has it: on the chunked route the arrays handed to \<open>dask_coverage\<close> are
  \<open>as_dask\<close> of the two coordinates and \<open>geometries_as_dask_array\<close> of the collection.
  A coordinate that is a numpy array keeps its values and gets the chunk sizes that
  \<open>obj.chunksizes\<close> has for its dimension, a single chunk only when there are none; a
  coordinate that is a dask array is passed as it is.
\<close>

theorem coverage_normalizes_coordinates:
  assumes "\<not> is_in_memory obj geoms" and "snd (coverage e obj geoms xdim ydim st cw) = Inr out"
  shows "\<exists>G. da_data out = Lazy G
     \<and> as_dask obj xdim = Inr (x_blocks G) \<and> as_dask obj ydim = Inr (y_blocks G)
     \<and> geom_blocks G = geometries_as_dask_array geoms
     \<and> (\<forall>xs. variable_data obj xdim = Inr (NumpyArray xs) \<longrightarrow>
           concat (x_blocks G) = xs
           \<and> chunks (x_blocks G)
               = (case map_of (chunksizes obj) xdim of None \<Rightarrow> [length xs] | Some cs \<Rightarrow> cs))
     \<and> (\<forall>ys. variable_data obj ydim = Inr (NumpyArray ys) \<longrightarrow>
           concat (y_blocks G) = ys
           \<and> chunks (y_blocks G)
               = (case map_of (chunksizes obj) ydim of None \<Rightarrow> [length ys] | Some cs \<Rightarrow> cs))
     \<and> (\<forall>bs. variable_data obj xdim = Inr (DaskArray bs) \<longrightarrow> x_blocks G = bs)
     \<and> (\<forall>bs. variable_data obj ydim = Inr (DaskArray bs) \<longrightarrow> y_blocks G = bs)"
proof -
  from assms obtain sr dask_x dask_y G where
    x: "as_dask obj xdim = Inr dask_x" and y: "as_dask obj ydim = Inr dask_y"
    and g: "dask_coverage dask_x dask_y (geometries_as_dask_array geoms) cw st (geometries_crs geoms) = Inr G"
    and d: "da_data out = Lazy G"
    by (rule coverage_chunked)
  note b = dask_coverage_Inr[OF g]
  have 1: "concat (x_blocks G) = xs
      \<and> chunks (x_blocks G) = (case map_of (chunksizes obj) xdim of None \<Rightarrow> [length xs] | Some cs \<Rightarrow> cs)"
    if "variable_data obj xdim = Inr (NumpyArray xs)" for xs
    using as_dask_numpy[OF that x] b(1) by simp
  have 2: "concat (y_blocks G) = ys
      \<and> chunks (y_blocks G) = (case map_of (chunksizes obj) ydim of None \<Rightarrow> [length ys] | Some cs \<Rightarrow> cs)"
    if "variable_data obj ydim = Inr (NumpyArray ys)" for ys
    using as_dask_numpy[OF that y] b(2) by simp
  have 3: "x_blocks G = bs" if "variable_data obj xdim = Inr (DaskArray bs)" for bs
    using as_dask_dask[OF that] x b(1) by simp
  have 4: "y_blocks G = bs" if "variable_data obj ydim = Inr (DaskArray bs)" for bs
    using as_dask_dask[OF that] y b(2) by simp
  show ?thesis
    using d x y b(1,2,3) 1 2 3 4 by blast
qed

text \<open>
  A chunked object: \<open>x = [0, 1, 2, 3]\<close> and \<open>y = [1, 0]\<close> are numpy coordinates, the object
  is chunked \<open>(2, 2)\<close> along \<open>x\<close> and \<open>(2)\<close> along \<open>y\<close>. The graph gets \<open>x\<close> in two chunks.
\<close>

lemma worked_chunked:
  "coverage box_engine
     \<lparr> spatial_ref = Some ''EPSG:4326'',
       variables = [(''x'', NumpyArray [0, 1, 2, 3]), (''y'', NumpyArray [1, 0])],
       chunksizes = [(''x'', [2, 2]), (''y'', [2])],
       xindexes = [] \<rparr>
     (GeoDataFrame \<lparr> geometry = [(- 1 / 2, 1 / 2, - 1 / 2, 1 / 2)], columns = [''geometry''],
                     crs = Some ''EPSG:4326'' \<rparr>)
     ''x'' ''y'' ''feature-sequential'' ''fraction''
   = ([], Inr \<lparr> dims = [''geometry'', ''y'', ''x''],
               da_data = Lazy \<lparr> geom_blocks = [[(- 1 / 2, 1 / 2, - 1 / 2, 1 / 2)]],
                                y_blocks = [[1, 0]],
                                x_blocks = [[0, 1], [2, 3]],
                                graph_crs = Some ''EPSG:4326'',
                                graph_coverage_weight = ''fraction'',
                                graph_strategy = ''feature-sequential'',
                                out_chunks = ([1], [2], [2, 2]),
                                meta_dtype = Float64 \<rparr>,
               coord_spatial_ref = ''EPSG:4326'',
               coord_geometry = GeometryValues [(- 1 / 2, 1 / 2, - 1 / 2, 1 / 2)],
               index_coords = [],
               attrs = [],
               name = ''coverage'' \<rparr>)"
  by code_simp

theorem coverage_normalizes_coordinates_witness:
  "\<not> is_in_memory
       \<lparr> spatial_ref = Some ''EPSG:4326'',
         variables = [(''x'', NumpyArray [0, 1, 2, 3]), (''y'', NumpyArray [1, 0])],
         chunksizes = [(''x'', [2, 2]), (''y'', [2])],
         xindexes = [] \<rparr>
       (GeoDataFrame \<lparr> geometry = [(- 1 / 2, 1 / 2, - 1 / 2, 1 / 2) :: box],
                       columns = [''geometry''], crs = Some ''EPSG:4326'' \<rparr>)
   \<and> as_dask
       \<lparr> spatial_ref = Some ''EPSG:4326'',
         variables = [(''x'', NumpyArray [0, 1, 2, 3]), (''y'', NumpyArray [1, 0])],
         chunksizes = [(''x'', [2, 2]), (''y'', [2])],
         xindexes = [] \<rparr> ''x'' = Inr [[0, 1], [2, 3]]"
proof -
  let ?obj = "\<lparr> spatial_ref = Some ''EPSG:4326'',
         variables = [(''x'', NumpyArray [0, 1, 2, 3]), (''y'', NumpyArray [1, 0])],
         chunksizes = [(''x'', [2, 2]), (''y'', [2])],
         xindexes = [] \<rparr>"
  let ?g = "GeoDataFrame \<lparr> geometry = [(- 1 / 2, 1 / 2, - 1 / 2, 1 / 2) :: box],
                       columns = [''geometry''], crs = Some ''EPSG:4326'' \<rparr>"
  have h: "\<not> is_in_memory ?obj ?g" by (simp add: is_in_memory_def)
  have r: "snd (coverage box_engine ?obj ?g ''x'' ''y'' ''feature-sequential'' ''fraction'')
     = Inr \<lparr> dims = [''geometry'', ''y'', ''x''],
               da_data = Lazy \<lparr> geom_blocks = [[(- 1 / 2, 1 / 2, - 1 / 2, 1 / 2)]],
                                y_blocks = [[1, 0]],
                                x_blocks = [[0, 1], [2, 3]],
                                graph_crs = Some ''EPSG:4326'',
                                graph_coverage_weight = ''fraction'',
                                graph_strategy = ''feature-sequential'',
                                out_chunks = ([1], [2], [2, 2]),
                                meta_dtype = Float64 \<rparr>,
               coord_spatial_ref = ''EPSG:4326'',
               coord_geometry = GeometryValues [(- 1 / 2, 1 / 2, - 1 / 2, 1 / 2)],
               index_coords = [],
               attrs = [],
               name = ''coverage'' \<rparr>"
    using worked_chunked by simp
  from coverage_normalizes_coordinates[OF h r] h show ?thesis by auto
qed

text \<open>
  C9 as stated fails: the numpy coordinate \<open>x\<close> of an object chunked \<open>(2, 2)\<close> along \<open>x\<close>
  reaches \<open>dask_coverage\<close> in two chunks, not one.
\<close>

theorem coverage_single_chunk_counterexample:
  "variable_data
       \<lparr> spatial_ref = Some ''EPSG:4326'',
         variables = [(''x'', NumpyArray [0, 1, 2, 3]), (''y'', NumpyArray [1, 0])],
         chunksizes = [(''x'', [2, 2]), (''y'', [2])],
         xindexes = [] \<rparr> ''x'' = Inr (NumpyArray [0, 1, 2, 3])
   \<and> snd (coverage box_engine
       \<lparr> spatial_ref = Some ''EPSG:4326'',
         variables = [(''x'', NumpyArray [0, 1, 2, 3]), (''y'', NumpyArray [1, 0])],
         chunksizes = [(''x'', [2, 2]), (''y'', [2])],
         xindexes = [] \<rparr>
       (GeoDataFrame \<lparr> geometry = [(- 1 / 2, 1 / 2, - 1 / 2, 1 / 2)], columns = [''geometry''],
                       crs = Some ''EPSG:4326'' \<rparr>)
       ''x'' ''y'' ''feature-sequential'' ''fraction'')
     = Inr \<lparr> dims = [''geometry'', ''y'', ''x''],
               da_data = Lazy \<lparr> geom_blocks = [[(- 1 / 2, 1 / 2, - 1 / 2, 1 / 2)]],
                                y_blocks = [[1, 0]],
                                x_blocks = [[0, 1], [2, 3]],
                                graph_crs = Some ''EPSG:4326'',
                                graph_coverage_weight = ''fraction'',
                                graph_strategy = ''feature-sequential'',
                                out_chunks = ([1], [2], [2, 2]),
                                meta_dtype = Float64 \<rparr>,
               coord_spatial_ref = ''EPSG:4326'',
               coord_geometry = GeometryValues [(- 1 / 2, 1 / 2, - 1 / 2, 1 / 2)],
               index_coords = [],
               attrs = [],
               name = ''coverage'' \<rparr>"
  using worked_chunked by (simp add: variable_data_def)

section \<open>The CRS of the gridded object\<close>

lemma xy_to_raster_source_srs:
  assumes "xy_to_raster_source x y srs = Inr r"
  shows "srs_wkt r = srs"
proof (cases "2 \<le> length x \<and> 2 \<le> length y")
  case True
  then show ?thesis using assms xy_to_raster_source_eq[of x y srs] by auto
next
  case False
  then have "length x < 2 \<or> length y < 2" by auto
  from xy_to_raster_source_short[OF this, of srs] assms show ?thesis by simp
qed

lemma np_coverage_calls_srs:
  assumes "c \<in> set (fst (np_coverage e x y t st cw))"
  shows "srs_wkt (rast c) = crs t"
  using assms xy_to_raster_source_srs
  by (auto simp: np_coverage_def Let_def split: if_splits option.splits sum.splits)

lemma compute_calls_srs:
  assumes "c \<in> set (compute_calls e G)"
  shows "srs_wkt (rast c) = graph_crs G"
  using assms np_coverage_calls_srs
  by (fastforce simp: compute_calls_def compute_def coverage_np_dask_wrapper_def)

lemma coverage_calls_srs:
  assumes "c \<in> set (fst (coverage e obj g xd yd st cw))"
  shows "srs_wkt (rast c) = geometries_crs g"
  using assms np_coverage_calls_srs
  by (auto simp: coverage_def Let_def geometries_crs_def
      split: option.splits if_splits geometries.splits sum.splits)

lemma spatial_ref_irrelevant [simp]:
  "is_in_memory (obj\<lparr>spatial_ref := s\<rparr>) g = is_in_memory obj g"
  "variable_data (obj\<lparr>spatial_ref := s\<rparr>) d = variable_data obj d"
  "as_dask (obj\<lparr>spatial_ref := s\<rparr>) d = as_dask obj d"
  by (simp_all add: is_in_memory_def variable_data_def as_dask_def bind_def
      split: option.splits array_data.splits)

lemma assemble_output_fields [simp]:
  "da_data (assemble_output obj sr xd yd cw out ga) = out"
  "coord_spatial_ref (assemble_output obj sr xd yd cw out ga) = sr"
  by (simp_all add: assemble_output_def)

lemma coverage_data_independent:
  "fst (coverage e (obj\<lparr>spatial_ref := Some s1\<rparr>) g xd yd st cw)
     = fst (coverage e (obj\<lparr>spatial_ref := Some s2\<rparr>) g xd yd st cw)"
  "map_sum id da_data (snd (coverage e (obj\<lparr>spatial_ref := Some s1\<rparr>) g xd yd st cw))
     = map_sum id da_data (snd (coverage e (obj\<lparr>spatial_ref := Some s2\<rparr>) g xd yd st cw))"
  by (auto simp: coverage_def Let_def bind_def split: sum.splits geometries.splits prod.splits)

lemma coverage_spatial_ref:
  assumes "snd (coverage e (obj\<lparr>spatial_ref := Some s\<rparr>) g xd yd st cw) = Inr out"
  shows "coord_spatial_ref out = s"
  using assms
  by (auto simp: coverage_def Let_def bind_eq_Inr split: if_splits geometries.splits sum.splits)

text \<open>
  C10: two runs of \<open>coverage\<close> on objects that differ only in the payload of
  \<open>spatial_ref\<close> make the same engine calls and end in the same error or the same data;
  the payload is only attached to the output. Every raster descriptor handed to the
  engine, on the in-memory route and when the graph of the chunked route is materialised,
  carries the CRS of the geometries.
\<close>

theorem coverage_ignores_object_crs:
  "fst (coverage e (obj\<lparr>spatial_ref := Some s1\<rparr>) g xd yd st cw)
     = fst (coverage e (obj\<lparr>spatial_ref := Some s2\<rparr>) g xd yd st cw)
   \<and> map_sum id da_data (snd (coverage e (obj\<lparr>spatial_ref := Some s1\<rparr>) g xd yd st cw))
     = map_sum id da_data (snd (coverage e (obj\<lparr>spatial_ref := Some s2\<rparr>) g xd yd st cw))
   \<and> (\<forall>out. snd (coverage e (obj\<lparr>spatial_ref := Some s1\<rparr>) g xd yd st cw) = Inr out
         \<longrightarrow> coord_spatial_ref out = s1)
   \<and> (\<forall>c\<in>set (fst (coverage e (obj\<lparr>spatial_ref := Some s1\<rparr>) g xd yd st cw)).
         srs_wkt (rast c) = geometries_crs g)
   \<and> (\<forall>out G. snd (coverage e (obj\<lparr>spatial_ref := Some s1\<rparr>) g xd yd st cw) = Inr out
         \<and> da_data out = Lazy G
         \<longrightarrow> (\<forall>c\<in>set (compute_calls e G). srs_wkt (rast c) = geometries_crs g))"
proof -
  have lazy: "srs_wkt (rast c) = geometries_crs g"
    if "snd (coverage e (obj\<lparr>spatial_ref := Some s1\<rparr>) g xd yd st cw) = Inr out"
      and "da_data out = Lazy G" and "c \<in> set (compute_calls e G)" for out G c
  proof -
    have "graph_crs G = geometries_crs g"
      using that(1,2)
      by (auto simp: coverage_def Let_def bind_eq_Inr dask_coverage_def
          split: if_splits geometries.splits sum.splits)
    with compute_calls_srs[OF that(3)] show ?thesis by simp
  qed
  show ?thesis
    using coverage_data_independent[where e = e and obj = obj and ?s1.0 = s1 and ?s2.0 = s2
        and g = g and xd = xd and yd = yd and st = st and cw = cw]
      coverage_spatial_ref[where e = e and obj = obj and s = s1 and g = g and xd = xd
        and yd = yd and st = st and cw = cw]
      coverage_calls_srs[where e = e and obj = "obj\<lparr>spatial_ref := Some s1\<rparr>" and g = g
        and xd = xd and yd = yd and st = st and cw = cw]
      lazy
    by blast
qed

text \<open>
  An in-memory object over the worked block, with a \<open>spatial_ref\<close> payload that differs
  from the CRS of the geometries.
\<close>

lemma worked_in_memory:
  "coverage box_engine
     \<lparr> spatial_ref = Some ''EPSG:3857'',
       variables = [(''x'', NumpyArray [0, 1]), (''y'', NumpyArray [1, 0])],
       chunksizes = [],
       xindexes = [] \<rparr>
     (GeoDataFrame \<lparr> geometry = [(- 1 / 2, 1 / 2, - 1 / 2, 1 / 2), (5, 6, 5, 6)],
                     columns = [''geometry''], crs = Some ''EPSG:4326'' \<rparr>)
     ''x'' ''y'' ''feature-sequential'' ''fraction''
   = ([\<lparr> rast = \<lparr> shape = (2, 2), xmin = - 1 / 2, xmax = 3 / 2, ymin = - 1 / 2, ymax = 3 / 2,
                    srs_wkt = Some ''EPSG:4326'' \<rparr>,
          vec = \<lparr> geometry = [(- 1 / 2, 1 / 2, - 1 / 2, 1 / 2), (5, 6, 5, 6)],
                  columns = [''geometry''], crs = Some ''EPSG:4326'' \<rparr>,
          ops = [''cell_id'', ''coverage(coverage_weight=fraction)''] \<rparr>],
      Inr \<lparr> dims = [''geometry'', ''y'', ''x''],
            da_data = Eager \<lparr> coords = [(0, 1, 0)], data = [1], data_dtype = Float64,
                              fill_value = 0, coo_shape = (2, 2, 2) \<rparr>,
            coord_spatial_ref = ''EPSG:3857'',
            coord_geometry = GeometryValues [(- 1 / 2, 1 / 2, - 1 / 2, 1 / 2), (5, 6, 5, 6)],
            index_coords = [],
            attrs = [],
            name = ''coverage'' \<rparr>)"
  by code_simp

theorem coverage_ignores_object_crs_witness:
  "map_sum id da_data (snd (coverage box_engine
     \<lparr> spatial_ref = Some ''EPSG:4326'',
       variables = [(''x'', NumpyArray [0, 1]), (''y'', NumpyArray [1, 0])],
       chunksizes = [],
       xindexes = [] \<rparr>
     (GeoDataFrame \<lparr> geometry = [(- 1 / 2, 1 / 2, - 1 / 2, 1 / 2), (5, 6, 5, 6)],
                     columns = [''geometry''], crs = Some ''EPSG:4326'' \<rparr>)
     ''x'' ''y'' ''feature-sequential'' ''fraction''))
   = Inr (Eager \<lparr> coords = [(0, 1, 0)], data = [1], data_dtype = Float64,
                   fill_value = 0, coo_shape = (2, 2, 2) \<rparr>)"
proof -
  let ?obj = "\<lparr> spatial_ref = Some ''EPSG:3857'',
       variables = [(''x'', NumpyArray [0, 1]), (''y'', NumpyArray [1, 0])],
       chunksizes = [],
       xindexes = [] \<rparr>"
  let ?g = "GeoDataFrame \<lparr> geometry = [(- 1 / 2, 1 / 2, - 1 / 2, 1 / 2), (5, 6, 5, 6) :: box],
                     columns = [''geometry''], crs = Some ''EPSG:4326'' \<rparr>"
  from coverage_ignores_object_crs[where e = box_engine and obj = ?obj and ?s1.0 = "''EPSG:4326''"
      and ?s2.0 = "''EPSG:3857''" and g = ?g and xd = "''x''" and yd = "''y''"
      and st = "''feature-sequential''" and cw = "''fraction''"]
  have "map_sum id da_data (snd (coverage box_engine (?obj\<lparr>spatial_ref := Some ''EPSG:4326''\<rparr>)
            ?g ''x'' ''y'' ''feature-sequential'' ''fraction''))
      = map_sum id da_data (snd (coverage box_engine (?obj\<lparr>spatial_ref := Some ''EPSG:3857''\<rparr>)
            ?g ''x'' ''y'' ''feature-sequential'' ''fraction''))"
    by blast
  then show ?thesis
    using worked_in_memory by simp
qed

section \<open>Tables with more than one column\<close>

text \<open>
  On the in-memory route a table with more than one column is refused by \<open>np_coverage\<close>
  before the engine is called.
\<close>

lemma np_coverage_rejects_columns:
  assumes "1 < length (columns t)"
  shows "np_coverage e x y t st cw
     = ([], Inl (ValueError ''Require a single geometries column or a GeoSeries.''))"
  using assms by (simp add: np_coverage_def)

lemma coverage_in_memory_rejects_columns:
  assumes "1 < length (columns t)" and "is_in_memory obj (GeoDataFrame t)"
  shows "fst (coverage e obj (GeoDataFrame t) xd yd st cw) = []"
    and "\<exists>err. snd (coverage e obj (GeoDataFrame t) xd yd st cw) = Inl err"
  using assms
  by (auto simp: coverage_def np_coverage_rejects_columns Let_def split: option.splits sum.splits)

text \<open>
  Every block of the chunked route rebuilds a table with the single column
  \<open>geometry\<close>, so the check of \<open>np_coverage\<close> cannot fire there.
\<close>

lemma fill_arrays_error:
  assumes "fill_arrays d res idxs acc = Inl err"
  shows "err = ValueError ''could not broadcast input array''"
  using assms
proof (induction idxs arbitrary: acc)
  case Nil
  then show ?case by simp
next
  case (Cons i rest)
  show ?case
  proof (cases acc)
    case acc: (fields gi xi da)
    show ?thesis
    proof (cases "cell_id (res i) = []")
      case True
      with Cons.prems acc have "fill_arrays d res rest (gi, xi, da) = Inl err" by simp
      then show ?thesis by (rule Cons.IH)
    next
      case False
      show ?thesis
      proof (cases "broadcast_to (coverage_values (res i)) (length (cell_id (res i)))")
        case (Inl b)
        then have "b = ValueError ''could not broadcast input array''"
          by (auto simp: broadcast_to_def split: if_splits)
        with Cons.prems acc False Inl show ?thesis by (simp add: Let_def)
      next
        case (Inr vals)
        with Cons.prems acc False have "fill_arrays d res rest
            (gi @ replicate (length (cell_id (res i))) i, xi @ cell_id (res i),
             da @ map (astype d) vals) = Inl err"
          by (simp add: Let_def)
        then show ?thesis by (rule Cons.IH)
      qed
    qed
  qed
qed

lemma xy_to_raster_source_error:
  assumes "xy_to_raster_source x y srs = Inl err"
  shows "err = IndexError"
proof (cases "2 \<le> length x \<and> 2 \<le> length y")
  case True
  then show ?thesis using assms xy_to_raster_source_eq[of x y srs] by auto
next
  case False
  then have "length x < 2 \<or> length y < 2" by auto
  from xy_to_raster_source_short[OF this, of srs] assms show ?thesis by simp
qed

lemma wrapper_never_rejects_columns:
  "snd (coverage_np_dask_wrapper e ga x y cw st c)
     \<noteq> Inl (ValueError ''Require a single geometries column or a GeoSeries.'')"
proof
  assume a: "snd (coverage_np_dask_wrapper e ga x y cw st c)
     = Inl (ValueError ''Require a single geometries column or a GeoSeries.'')"
  let ?t = "\<lparr> geometry = ga, columns = [''geometry''], crs = c \<rparr>"
  let ?msg = "ValueError ''Require a single geometries column or a GeoSeries.''"
  from a have n: "snd (np_coverage e x y ?t DEFAULT_STRATEGY cw) = Inl ?msg"
    by (simp add: coverage_np_dask_wrapper_def)
  show False
  proof (cases c)
    case None
    with n show False by (simp add: np_coverage_def)
  next
    case (Some wkt)
    show False
    proof (cases "xy_to_raster_source x y (Some wkt)")
      case (Inl err)
      with xy_to_raster_source_error[OF Inl] n Some show False by (simp add: np_coverage_def)
    next
      case (Inr raster)
      show False
      proof (cases "fill_arrays (get_dtype cw) (e raster ?t (coverage_ops cw)) [0..<length ga] ([], [], [])")
        case (Inl err)
        with fill_arrays_error[OF Inl] n Some Inr show False
          by (simp add: np_coverage_def Let_def split: if_splits)
      next
        case f: (Inr r)
        obtain gi xi da where r: "r = (gi, xi, da)" by (cases r)
        with n Some Inr f show False
          by (auto simp: np_coverage_def Let_def unravel_index_def split: if_splits)
      qed
    qed
  qed
qed


section \<open>Chunk layouts\<close>












end
